theory Spec2Isabelle
  imports Complex_Main "HOL-Library.Sublist"
begin

section \<open>JavaScript values\<close>

text \<open>
  The program is the page component \<^verbatim>\<open>app/page.tsx\<close>. Its functions compute with
  JavaScript numbers and strings, and two of them index an object literal with a
  string that the caller chooses. The embedding keeps the coercions that this
  involves.

  A number is a finite value, an infinity or NaN. Finite doubles are modelled by the
  reals (exact arithmetic, one zero taken as positive). A string is a sequence of
  UTF-16 code units; the model has the code units below 256 (Latin-1), which are the
  characters of \<^typ>\<open>string\<close>.
\<close>

datatype num = Fin real | Infinity bool | NaN

text \<open>
  \<open>Infinity True\<close> is positive infinity. \<open>Inherited k\<close> is the value of the property
  \<open>k\<close> that every object literal inherits from \<^verbatim>\<open>Object.prototype\<close>: a built-in
  function, or the prototype object itself for \<^verbatim>\<open>__proto__\<close>.
\<close>

datatype jsval = Number num | Text string | Inherited string | Undefined

datatype js_error = TypeError

text \<open>
  What the runtime decides and the program does not: the source text of a built-in
  (implementation-defined), the decimal text of a finite number and the parsing of
  a string as a number (both defined on the binary representation), and the
  locale's number format.
\<close>

record runtime =
  inheritedText :: "string \<Rightarrow> string"
  finiteToString :: "real \<Rightarrow> string"
  stringToNumber :: "string \<Rightarrow> num"
  localeFormat :: "num \<Rightarrow> string"

subsection \<open>Property lookup\<close>

definition objectPrototypeKeys :: "string list" where
  "objectPrototypeKeys =
     [''constructor'', ''hasOwnProperty'', ''isPrototypeOf'', ''propertyIsEnumerable'',
      ''toLocaleString'', ''toString'', ''valueOf'', ''__proto__'',
      ''__defineGetter__'', ''__defineSetter__'', ''__lookupGetter__'',
      ''__lookupSetter__'']"

text \<open>\<^verbatim>\<open>obj[key]\<close> on an object literal: an own property, else the prototype chain.\<close>

definition getProp :: "(string \<times> jsval) list \<Rightarrow> string \<Rightarrow> jsval" where
  "getProp obj key =
     (case map_of obj key of
        Some v \<Rightarrow> v
      | None \<Rightarrow> if key \<in> set objectPrototypeKeys then Inherited key else Undefined)"

subsection \<open>Coercions and operators\<close>

fun truthy :: "jsval \<Rightarrow> bool" where
  "truthy (Number (Fin x)) = (x \<noteq> 0)"
| "truthy (Number (Infinity s)) = True"
| "truthy (Number NaN) = False"
| "truthy (Text s) = (s \<noteq> [])"
| "truthy (Inherited k) = True"
| "truthy Undefined = False"

text \<open>\<^verbatim>\<open>a || b\<close>\<close>

definition jor :: "jsval \<Rightarrow> jsval \<Rightarrow> jsval" where
  "jor a b = (if truthy a then a else b)"

fun numToString :: "runtime \<Rightarrow> num \<Rightarrow> string" where
  "numToString env (Fin x) = finiteToString env x"
| "numToString env (Infinity s) = (if s then ''Infinity'' else ''-Infinity'')"
| "numToString env NaN = ''NaN''"

fun toString :: "runtime \<Rightarrow> jsval \<Rightarrow> string" where
  "toString env (Number n) = numToString env n"
| "toString env (Text s) = s"
| "toString env (Inherited k) = inheritedText env k"
| "toString env Undefined = ''undefined''"

text \<open>
  The text of a built-in function starts with \<^verbatim>\<open>function\<close> and that of the prototype
  object is \<^verbatim>\<open>[object Object]\<close>: neither is a numeric literal, so both convert to NaN.
\<close>

fun toNumber :: "runtime \<Rightarrow> jsval \<Rightarrow> num" where
  "toNumber env (Number n) = n"
| "toNumber env (Text s) = stringToNumber env s"
| "toNumber env (Inherited k) = NaN"
| "toNumber env Undefined = NaN"

fun toPrimitive :: "runtime \<Rightarrow> jsval \<Rightarrow> jsval" where
  "toPrimitive env (Inherited k) = Text (inheritedText env k)"
| "toPrimitive env v = v"

fun isText :: "jsval \<Rightarrow> bool" where
  "isText (Text s) = True"
| "isText v = False"

fun nneg :: "num \<Rightarrow> num" where
  "nneg (Fin a) = Fin (- a)"
| "nneg (Infinity s) = Infinity (\<not> s)"
| "nneg NaN = NaN"

fun nadd :: "num \<Rightarrow> num \<Rightarrow> num" where
  "nadd (Fin a) (Fin b) = Fin (a + b)"
| "nadd (Fin a) (Infinity t) = Infinity t"
| "nadd (Infinity s) (Fin b) = Infinity s"
| "nadd (Infinity s) (Infinity t) = (if s = t then Infinity s else NaN)"
| "nadd NaN y = NaN"
| "nadd x NaN = NaN"

fun nmul :: "num \<Rightarrow> num \<Rightarrow> num" where
  "nmul (Fin a) (Fin b) = Fin (a * b)"
| "nmul (Fin a) (Infinity t) = (if a = 0 then NaN else Infinity ((0 < a) = t))"
| "nmul (Infinity s) (Fin b) = (if b = 0 then NaN else Infinity (s = (0 < b)))"
| "nmul (Infinity s) (Infinity t) = Infinity (s = t)"
| "nmul NaN y = NaN"
| "nmul x NaN = NaN"

fun ndiv :: "num \<Rightarrow> num \<Rightarrow> num" where
  "ndiv (Fin a) (Fin b) =
     (if b = 0 then (if a = 0 then NaN else Infinity (0 < a)) else Fin (a / b))"
| "ndiv (Fin a) (Infinity t) = Fin 0"
| "ndiv (Infinity s) (Fin b) = Infinity (s = (0 \<le> b))"
| "ndiv (Infinity s) (Infinity t) = NaN"
| "ndiv NaN y = NaN"
| "ndiv x NaN = NaN"

fun nfloor :: "num \<Rightarrow> num" where
  "nfloor (Fin a) = Fin (of_int \<lfloor>a\<rfloor>)"
| "nfloor (Infinity s) = Infinity s"
| "nfloor NaN = NaN"

text \<open>\<^verbatim>\<open>a * b\<close>, \<^verbatim>\<open>a / b\<close>, \<^verbatim>\<open>a - b\<close>: both operands are converted to numbers.\<close>

definition jmul :: "runtime \<Rightarrow> jsval \<Rightarrow> jsval \<Rightarrow> jsval" where
  "jmul env a b = Number (nmul (toNumber env a) (toNumber env b))"

definition jdiv :: "runtime \<Rightarrow> jsval \<Rightarrow> jsval \<Rightarrow> jsval" where
  "jdiv env a b = Number (ndiv (toNumber env a) (toNumber env b))"

definition jsub :: "runtime \<Rightarrow> jsval \<Rightarrow> jsval \<Rightarrow> jsval" where
  "jsub env a b = Number (nadd (toNumber env a) (nneg (toNumber env b)))"

text \<open>\<^verbatim>\<open>a + b\<close>: concatenation as soon as one operand's primitive is a string.\<close>

definition jadd :: "runtime \<Rightarrow> jsval \<Rightarrow> jsval \<Rightarrow> jsval" where
  "jadd env a b =
     (let l = toPrimitive env a; r = toPrimitive env b in
      if isText l \<or> isText r then Text (toString env l @ toString env r)
      else Number (nadd (toNumber env l) (toNumber env r)))"

text \<open>\<^verbatim>\<open>Math.floor(a)\<close>\<close>

definition mathFloor :: "runtime \<Rightarrow> jsval \<Rightarrow> jsval" where
  "mathFloor env a = Number (nfloor (toNumber env a))"

section \<open>The mock data generator\<close>

record MarketData =
  symbol :: string
  price :: jsval
  change :: jsval
  changePercent :: jsval

definition WATCHED_SYMBOLS :: "string list" where
  "WATCHED_SYMBOLS = [''^GSPC'', ''^DJI'', ''^IXIC'', ''GC=F'', ''BTC-USD'']"

text \<open>The object literal of \<^verbatim>\<open>getMockMarketData\<close>, in the order it is written.\<close>

definition basePriceTable :: "(string \<times> jsval) list" where
  "basePriceTable =
     [(''^GSPC'', Number (Fin 4500)),
      (''^DJI'', Number (Fin 35000)),
      (''^IXIC'', Number (Fin 14000)),
      (''GC=F'', Number (Fin 1900)),
      (''BTC-USD'', Number (Fin 45000))]"

text \<open>The lookup in the literal, then \<^verbatim>\<open>|| 100\<close>.\<close>

definition basePriceOf :: "string \<Rightarrow> jsval" where
  "basePriceOf symb = jor (getProp basePriceTable symb) (Number (Fin 100))"

text \<open>
  \<open>r\<close> is the value that \<^verbatim>\<open>Math.random()\<close> returns in this call, a number in \<open>[0, 1)\<close>.
\<close>

definition getMockMarketData :: "runtime \<Rightarrow> string \<Rightarrow> real \<Rightarrow> MarketData" where
  "getMockMarketData env symb r =
     (let basePrice = basePriceOf symb;
          chg = jmul env
                  (jsub env (jmul env (Number (Fin r)) (Number (Fin 2))) (Number (Fin 1)))
                  (jmul env basePrice (Number (Fin 0.02)));
          pct = jmul env (jdiv env chg basePrice) (Number (Fin 100))
      in \<lparr> symbol = symb, price = jadd env basePrice chg, change = chg,
           changePercent = pct \<rparr>)"

section \<open>Number formatting\<close>

fun digitsOf :: "nat \<Rightarrow> string" where
  "digitsOf n =
     (if n < 10 then [char_of (48 + n)]
      else digitsOf (n div 10) @ [char_of (48 + n mod 10)])"

declare digitsOf.simps [simp del]

text \<open>
  \<^verbatim>\<open>x.toFixed(2)\<close> for a finite \<open>x\<close> with \<open>0 \<le> x < 10^21\<close>: the integer \<open>n\<close> nearest
  to \<open>100 * x\<close> (the larger one on a tie), its digits padded to three, and a point
  before the last two.
\<close>

definition fixed2 :: "real \<Rightarrow> string" where
  "fixed2 a =
     (let n = nat \<lfloor>a * 100 + 1 / 2\<rfloor>;
          m = digitsOf n;
          z = replicate (3 - length m) (CHR ''0'') @ m;
          k = length z
      in take (k - 2) z @ ''.'' @ drop (k - 2) z)"

text \<open>
  From \<open>10^21\<close> on, \<^verbatim>\<open>toFixed\<close> prints the number as \<^verbatim>\<open>String(x)\<close> does.
\<close>

fun numToFixed2 :: "runtime \<Rightarrow> num \<Rightarrow> string" where
  "numToFixed2 env (Fin x) =
     (if x < 0 then ''-'' else []) @
     (if 10 ^ 21 \<le> \<bar>x\<bar> then finiteToString env \<bar>x\<bar> else fixed2 \<bar>x\<bar>)"
| "numToFixed2 env (Infinity s) = numToString env (Infinity s)"
| "numToFixed2 env NaN = numToString env NaN"

text \<open>
  \<^verbatim>\<open>v.toFixed(2)\<close>: only a number has the method; on any other value the call
  throws a TypeError.
\<close>

fun toFixed2 :: "runtime \<Rightarrow> jsval \<Rightarrow> js_error + string" where
  "toFixed2 env (Number n) = Inr (numToFixed2 env n)"
| "toFixed2 env (Text s) = Inl TypeError"
| "toFixed2 env (Inherited k) = Inl TypeError"
| "toFixed2 env Undefined = Inl TypeError"

text \<open>\<^verbatim>\<open>v.toLocaleString()\<close>\<close>

fun toLocaleString :: "runtime \<Rightarrow> jsval \<Rightarrow> js_error + string" where
  "toLocaleString env (Number n) = Inr (localeFormat env n)"
| "toLocaleString env (Text s) = Inr s"
| "toLocaleString env (Inherited k) = Inr (inheritedText env k)"
| "toLocaleString env Undefined = Inl TypeError"

definition bindE :: "js_error + 'a \<Rightarrow> ('a \<Rightarrow> js_error + 'b) \<Rightarrow> js_error + 'b" where
  "bindE m f = (case m of Inl e \<Rightarrow> Inl e | Inr v \<Rightarrow> f v)"

text \<open>\<^verbatim>\<open>lines.join(sep)\<close>\<close>

fun join :: "string \<Rightarrow> string list \<Rightarrow> string" where
  "join sep [] = []"
| "join sep [x] = x"
| "join sep (x # y # ys) = x @ sep @ join sep (y # ys)"

section \<open>The detailed analysis\<close>

definition SYMBOL_NAMES :: "(string \<times> string) list" where
  "SYMBOL_NAMES =
     [(''^GSPC'', ''S&P 500''),
      (''^DJI'', ''Dow Jones''),
      (''^IXIC'', ''NASDAQ''),
      (''GC=F'', ''Gold''),
      (''BTC-USD'', ''Bitcoin'')]"

text \<open>\<^verbatim>\<open>SYMBOL_NAMES[symbol] || symbol\<close>\<close>

definition displayName :: "string \<Rightarrow> jsval" where
  "displayName symb =
     jor (getProp (map (\<lambda>(k, v). (k, Text v)) SYMBOL_NAMES) symb) (Text symb)"

definition newline :: string where
  "newline = [CHR 0x0A]"

text \<open>
  \<open>r1\<close> is the draw of the generator's call and \<open>r2\<close> the draw of the volume. The
  five lines are built in the order of the array literal, so the first method call
  that throws ends the function.
\<close>

definition getMockDetailedAnalysis ::
  "runtime \<Rightarrow> string \<Rightarrow> real \<Rightarrow> real \<Rightarrow> js_error + string" where
  "getMockDetailedAnalysis env symb r1 r2 =
     (let data = getMockMarketData env symb r1;
          volume = jadd env
                     (mathFloor env (jmul env (Number (Fin r2)) (Number (Fin 1000000))))
                     (Number (Fin 500000));
          marketCap = jmul env (price data) volume;
          dayLow = jmul env (price data) (Number (Fin 0.98));
          dayHigh = jmul env (price data) (Number (Fin 1.02));
          weekLow = jmul env (price data) (Number (Fin 0.9));
          weekHigh = jmul env (price data) (Number (Fin 1.1))
      in
        bindE (toFixed2 env (price data)) (\<lambda>p.
        bindE (toFixed2 env dayLow) (\<lambda>dl.
        bindE (toFixed2 env dayHigh) (\<lambda>dh.
        bindE (toFixed2 env weekLow) (\<lambda>wl.
        bindE (toFixed2 env weekHigh) (\<lambda>wh.
        bindE (toLocaleString env volume) (\<lambda>vol.
        bindE (toFixed2 env (jdiv env marketCap (Number (Fin 1000000000)))) (\<lambda>cap.
          let stats = join newline
                [''Current Price: $'' @ p,
                 ''Day Range: $'' @ dl @ '' - $'' @ dh,
                 ''52 Week Range: $'' @ wl @ '' - $'' @ wh,
                 ''Volume: '' @ vol,
                 ''Market Cap: $'' @ cap @ ''B'']
          in Inr (''Analysis for '' @ toString env (displayName symb) @ '':'' @ newline
                  @ stats)))))))))"

section \<open>Strings\<close>

text \<open>
  \<^verbatim>\<open>toLowerCase\<close> on Latin-1: the letters A to Z and the accented capitals (all of
  \<open>0xC0\<close> to \<open>0xDE\<close> but the multiplication sign) move up by 32.
\<close>

definition lowerChar :: "char \<Rightarrow> char" where
  "lowerChar c =
     (let n = (of_char c :: nat) in
      if (65 \<le> n \<and> n \<le> 90) \<or> (192 \<le> n \<and> n \<le> 222 \<and> n \<noteq> 215)
      then char_of (n + 32) else c)"

definition toLowerCase :: "string \<Rightarrow> string" where
  "toLowerCase s = map lowerChar s"

text \<open>White space and line terminators of Latin-1, which \<^verbatim>\<open>trim\<close> removes.\<close>

definition isWhiteSpace :: "char \<Rightarrow> bool" where
  "isWhiteSpace c = ((of_char c :: nat) \<in> set [9, 10, 11, 12, 13, 32, 160])"

definition trim :: "string \<Rightarrow> string" where
  "trim s = rev (dropWhile isWhiteSpace (rev (dropWhile isWhiteSpace s)))"

text \<open>\<^verbatim>\<open>hay.includes(needle)\<close>: the needle starts at some position of the hay.\<close>

fun stringIncludes :: "string \<Rightarrow> string \<Rightarrow> bool" where
  "stringIncludes [] needle = (needle = [])"
| "stringIncludes (c # cs) needle = (prefix needle (c # cs) \<or> stringIncludes cs needle)"

section \<open>The page's state\<close>

datatype Role = User | Assistant

record Message =
  content :: string
  role :: Role

record State =
  messages :: "Message list"
  input :: string
  marketData :: "MarketData list"
  loading :: bool

definition greeting :: string where
  "greeting = ''Hello! I'' @ [CHR 0x27] @ ''m your market advisor. I can provide market data and analysis for major indices and assets. Try asking about the S&P 500, Dow Jones, NASDAQ, Gold, or Bitcoin!''"

definition initialState :: State where
  "initialState =
     \<lparr> messages = [\<lparr> content = greeting, role = Assistant \<rparr>], input = [],
       marketData = [], loading = False \<rparr>"

text \<open>
  \<^verbatim>\<open>updateMarketData\<close>: \<open>rnd i\<close> is the draw of the \<open>i\<close>-th call of the generator. The
  two writes of the loading flag happen in one synchronous run; the state after it
  has the flag cleared.
\<close>

definition updateMarketData :: "runtime \<Rightarrow> (nat \<Rightarrow> real) \<Rightarrow> State \<Rightarrow> State" where
  "updateMarketData env rnd st =
     (let data = map (\<lambda>(i, symb). getMockMarketData env symb (rnd i))
                   (enumerate 0 WATCHED_SYMBOLS)
      in st\<lparr> marketData := data, loading := False \<rparr>)"

definition fallbackMessage :: string where
  "fallbackMessage = ''I can provide detailed analysis for S&P 500, Dow Jones, NASDAQ, Gold, and Bitcoin. Please ask about one of these markets!''"

text \<open>
  The loop of \<^verbatim>\<open>handleSubmit\<close> over \<^verbatim>\<open>Object.entries(SYMBOL_NAMES)\<close>: \<open>response\<close>
  starts empty, and the first entry whose name occurs in the input sets it and
  breaks.
\<close>

fun scanNames ::
  "runtime \<Rightarrow> string \<Rightarrow> real \<Rightarrow> real \<Rightarrow> (string \<times> string) list \<Rightarrow> js_error + string" where
  "scanNames env lowercaseInput r1 r2 [] = Inr []"
| "scanNames env lowercaseInput r1 r2 ((symb, name) # rest) =
     (if stringIncludes lowercaseInput (toLowerCase name)
      then getMockDetailedAnalysis env symb r1 r2
      else scanNames env lowercaseInput r1 r2 rest)"

text \<open>The response that \<^verbatim>\<open>handleSubmit\<close> computes for the submitted text.\<close>

definition respond :: "runtime \<Rightarrow> string \<Rightarrow> real \<Rightarrow> real \<Rightarrow> js_error + string" where
  "respond env inp r1 r2 =
     bindE (scanNames env (toLowerCase inp) r1 r2 SYMBOL_NAMES) (\<lambda>response.
       Inr (if response = [] then fallbackMessage else response))"

text \<open>
  \<^verbatim>\<open>handleSubmit\<close>. The function has no \<^verbatim>\<open>await\<close>, so it runs to its end in one
  step, and React applies the queued updates in order. Were the analysis to throw,
  the updates queued before it (the user's message, the cleared input) would stand.
\<close>

definition handleSubmit :: "runtime \<Rightarrow> real \<Rightarrow> real \<Rightarrow> State \<Rightarrow> State" where
  "handleSubmit env r1 r2 st =
     (if trim (input st) = [] then st
      else
        let userMessage = \<lparr> content = input st, role = User \<rparr>;
            st1 = st\<lparr> messages := messages st @ [userMessage], input := [] \<rparr>
        in case respond env (input st) r1 r2 of
             Inl e \<Rightarrow> st1
           | Inr response \<Rightarrow>
               st1\<lparr> messages := messages st1 @ [\<lparr> content = response, role = Assistant \<rparr>] \<rparr>)"

text \<open>What can happen in a session: typing into the field, a submission, a refresh.\<close>

datatype event = Typed string | Submit real real | Refresh "nat \<Rightarrow> real"

fun step :: "runtime \<Rightarrow> State \<Rightarrow> event \<Rightarrow> State" where
  "step env st (Typed s) = st\<lparr> input := s \<rparr>"
| "step env st (Submit r1 r2) = handleSubmit env r1 r2 st"
| "step env st (Refresh rnd) = updateMarketData env rnd st"

definition run :: "runtime \<Rightarrow> State \<Rightarrow> event list \<Rightarrow> State" where
  "run env st evs = foldl (step env) st evs"

section \<open>Reference definitions\<close>

text \<open>
  The base price as the specification words it: a fixed constant per symbol, and
  100 for every other string. It is compared with \<open>basePriceOf\<close>, which is what the
  code computes.
\<close>

definition basePrice_spec :: "string \<Rightarrow> real" where
  "basePrice_spec symb =
     (if symb = ''^GSPC'' then 4500
      else if symb = ''^DJI'' then 35000
      else if symb = ''^IXIC'' then 14000
      else if symb = ''GC=F'' then 1900
      else if symb = ''BTC-USD'' then 45000
      else 100)"

text \<open>Digits grouped in thousands, as the \<^verbatim>\<open>en-US\<close> locale prints an integer.\<close>

fun groupThousands :: "string \<Rightarrow> string" where
  "groupThousands ds =
     (if length ds \<le> 3 then ds
      else groupThousands (take (length ds - 3) ds) @ '','' @ drop (length ds - 3) ds)"

declare groupThousands.simps [simp del]

text \<open>
  A runtime to evaluate the model on: built-ins print the way V8 prints them, no
  string parses as a number, and numbers print as their integer part, which the
  locale groups in thousands.
\<close>

definition testRuntime :: runtime where
  "testRuntime =
     \<lparr> inheritedText = (\<lambda>k. if k = ''__proto__'' then ''[object Object]''
                             else ''function '' @ (if k = ''constructor'' then ''Object'' else k)
                                  @ ''() { [native code] }''),
       finiteToString = (\<lambda>x. digitsOf (nat \<lfloor>x\<rfloor>)),
       stringToNumber = (\<lambda>s. NaN),
       localeFormat = (\<lambda>n. case n of Fin x \<Rightarrow> groupThousands (digitsOf (nat \<lfloor>x\<rfloor>))
                                | Infinity s \<Rightarrow> ''Infinity''
                                | NaN \<Rightarrow> ''NaN'') \<rparr>"

text \<open>
  The header's name as the specification words it: the display name of a symbol of
  the table, the raw string for every other symbol. It is compared with
  \<open>displayName\<close>, which is what the code computes.
\<close>

definition displayName_spec :: "string \<Rightarrow> string" where
  "displayName_spec symb =
     (case map_of SYMBOL_NAMES symb of Some name \<Rightarrow> name | None \<Rightarrow> symb)"

text \<open>
  The symbol that the specification's responder selects: the first entry of the
  table, in its order, whose lowercased display name is a substring of the
  lowercased input.
\<close>

definition matchedSymbol :: "string \<Rightarrow> string option" where
  "matchedSymbol inp =
     map_option fst
       (find (\<lambda>(symb, name). sublist (toLowerCase name) (toLowerCase inp)) SYMBOL_NAMES)"

text \<open>
  The finite values on the numeric path, named to state the lemmas: the price for
  the draw \<open>r\<close> and the volume for the draw \<open>r2\<close>.
\<close>

definition priceOf :: "string \<Rightarrow> real \<Rightarrow> real" where
  "priceOf symb r = basePrice_spec symb + (r * 2 - 1) * (basePrice_spec symb * 0.02)"

definition volumeOf :: "real \<Rightarrow> real" where
  "volumeOf r2 = of_int \<lfloor>r2 * 1000000\<rfloor> + 500000"

section \<open>The generator\<close>

lemma basePrice_spec_pos: "0 < basePrice_spec symb"
  by (simp add: basePrice_spec_def)

lemma basePriceOf_inherited:
  "symb \<in> set objectPrototypeKeys \<Longrightarrow> basePriceOf symb = Inherited symb"
  by (auto simp add: basePriceOf_def getProp_def jor_def basePriceTable_def
      objectPrototypeKeys_def)

lemma basePriceOf_number:
  "symb \<notin> set objectPrototypeKeys \<Longrightarrow>
     basePriceOf symb = Number (Fin (basePrice_spec symb))"
  by (simp add: basePriceOf_def getProp_def jor_def basePriceTable_def basePrice_spec_def)

lemma getMockMarketData_number:
  assumes "basePriceOf symb = Number (Fin b)" and "b \<noteq> 0"
  shows "getMockMarketData env symb r =
           \<lparr> symbol = symb,
             price = Number (Fin (b + (r * 2 - 1) * (b * 0.02))),
             change = Number (Fin ((r * 2 - 1) * (b * 0.02))),
             changePercent = Number (Fin ((r * 2 - 1) * (b * 0.02) / b * 100)) \<rparr>"
  using assms
  by (simp add: getMockMarketData_def jmul_def jsub_def jdiv_def jadd_def Let_def)

lemma getMockMarketData_inherited:
  assumes "symb \<in> set objectPrototypeKeys"
  shows "getMockMarketData env symb r =
           \<lparr> symbol = symb,
             price = Text (inheritedText env symb @ ''NaN''),
             change = Number NaN,
             changePercent = Number NaN \<rparr>"
  using basePriceOf_inherited [OF assms]
  by (simp add: getMockMarketData_def jmul_def jsub_def jdiv_def jadd_def Let_def)

lemma watched_not_inherited:
  "symb \<in> set WATCHED_SYMBOLS \<Longrightarrow> symb \<notin> set objectPrototypeKeys"
  by (auto simp add: WATCHED_SYMBOLS_def objectPrototypeKeys_def)

text \<open>
  Claim C2. For a symbol of the watch-list and a draw \<open>r\<close> in \<open>[0, 1)\<close>, the price of
  the generated quote is a finite number between 0.98 and 1.02 times the base
  price of the symbol; it is the base price plus the change, and the change is at
  most 2 percent of the base price in absolute value.
\<close>

theorem price_within_two_percent:
  assumes "symb \<in> set WATCHED_SYMBOLS" and "0 \<le> r" and "r < 1"
  shows "\<exists>p c. basePriceOf symb = Number (Fin (basePrice_spec symb)) \<and>
           price (getMockMarketData env symb r) = Number (Fin p) \<and>
           change (getMockMarketData env symb r) = Number (Fin c) \<and>
           p = basePrice_spec symb + c \<and>
           0.98 * basePrice_spec symb \<le> p \<and> p \<le> 1.02 * basePrice_spec symb \<and>
           \<bar>c\<bar> \<le> 0.02 * basePrice_spec symb"
proof -
  let ?b = "basePrice_spec symb"
  have b: "basePriceOf symb = Number (Fin ?b)"
    using assms(1) by (simp add: basePriceOf_number watched_not_inherited)
  have pos: "0 < ?b" by (rule basePrice_spec_pos)
  let ?c = "(r * 2 - 1) * (?b * 0.02)"
  have gen: "price (getMockMarketData env symb r) = Number (Fin (?b + ?c))"
            "change (getMockMarketData env symb r) = Number (Fin ?c)"
    using getMockMarketData_number [OF b, of env r] pos by simp_all
  have "\<bar>r * 2 - 1\<bar> \<le> 1" using assms(2,3) by (simp add: abs_le_iff)
  then have "\<bar>r * 2 - 1\<bar> * (?b * 0.02) \<le> 1 * (?b * 0.02)"
    using pos by (intro mult_right_mono) simp_all
  then have c: "\<bar>?c\<bar> \<le> 0.02 * ?b"
    using pos by (simp add: abs_mult)
  then have "0.98 * ?b \<le> ?b + ?c" "?b + ?c \<le> 1.02 * ?b"
    by (simp_all add: abs_le_iff)
  with b gen c show ?thesis by blast
qed

theorem price_within_two_percent_witness:
  "''^GSPC'' \<in> set WATCHED_SYMBOLS \<and> (0::real) \<le> 1 / 4 \<and> (1 / 4 :: real) < 1 \<and>
   price (getMockMarketData testRuntime ''^GSPC'' (1 / 4)) = Number (Fin 4455) \<and>
   0.98 * basePrice_spec ''^GSPC'' \<le> (4455::real) \<and>
   (4455::real) \<le> 1.02 * basePrice_spec ''^GSPC''"
proof -
  have h1: "''^GSPC'' \<in> set WATCHED_SYMBOLS" by (simp add: WATCHED_SYMBOLS_def)
  have h2: "(0::real) \<le> 1 / 4" and h3: "(1 / 4 :: real) < 1" by simp_all
  from price_within_two_percent [OF h1 h2 h3, of testRuntime]
  obtain p where "price (getMockMarketData testRuntime ''^GSPC'' (1 / 4)) = Number (Fin p)"
    and "0.98 * basePrice_spec ''^GSPC'' \<le> p" and "p \<le> 1.02 * basePrice_spec ''^GSPC''"
    by blast
  moreover have "price (getMockMarketData testRuntime ''^GSPC'' (1 / 4)) = Number (Fin 4455)"
    by (simp add: getMockMarketData_def basePriceOf_def getProp_def jor_def basePriceTable_def
        jmul_def jsub_def jdiv_def jadd_def Let_def)
  ultimately show ?thesis using h1 by simp
qed

section \<open>The analysis\<close>

lemma displayName_text:
  "symb \<notin> set objectPrototypeKeys \<Longrightarrow> displayName symb = Text (displayName_spec symb)"
  by (simp add: displayName_def displayName_spec_def getProp_def jor_def SYMBOL_NAMES_def)

lemma displayName_inherited:
  "symb \<in> set objectPrototypeKeys \<Longrightarrow> displayName symb = Inherited symb"
  by (auto simp add: displayName_def getProp_def jor_def SYMBOL_NAMES_def
      objectPrototypeKeys_def)


lemma getMockDetailedAnalysis_number:
  assumes "price (getMockMarketData env symb r1) = Number (Fin p)"
  shows "getMockDetailedAnalysis env symb r1 r2 =
           Inr (join newline
             [''Analysis for '' @ toString env (displayName symb) @ '':'',
              ''Current Price: $'' @ numToFixed2 env (Fin p),
              ''Day Range: $'' @ numToFixed2 env (Fin (p * 0.98)) @ '' - $''
                 @ numToFixed2 env (Fin (p * 1.02)),
              ''52 Week Range: $'' @ numToFixed2 env (Fin (p * 0.9)) @ '' - $''
                 @ numToFixed2 env (Fin (p * 1.1)),
              ''Volume: '' @ localeFormat env (Fin (volumeOf r2)),
              ''Market Cap: $'' @ numToFixed2 env (Fin (p * volumeOf r2 / 1000000000))
                 @ ''B''])"
  using assms
  by (simp add: getMockDetailedAnalysis_def Let_def jmul_def jdiv_def jadd_def mathFloor_def
      bindE_def volumeOf_def del: numToFixed2.simps)

lemma getMockDetailedAnalysis_text:
  assumes "price (getMockMarketData env symb r1) = Text s"
  shows "getMockDetailedAnalysis env symb r1 r2 = Inl TypeError"
  using assms by (simp add: getMockDetailedAnalysis_def Let_def bindE_def)

lemma price_number:
  assumes "symb \<notin> set objectPrototypeKeys"
  shows "price (getMockMarketData env symb r) = Number (Fin (priceOf symb r))"
  using getMockMarketData_number [OF basePriceOf_number [OF assms], of env r]
    basePrice_spec_pos [of symb]
  by (simp add: priceOf_def)

lemma analysis_inherited:
  assumes "symb \<in> set objectPrototypeKeys"
  shows "getMockDetailedAnalysis env symb r1 r2 = Inl TypeError"
  using getMockMarketData_inherited [OF assms, of env r1]
  by (simp add: getMockDetailedAnalysis_text)

lemma analysis_starts:
  assumes "symb \<notin> set objectPrototypeKeys"
  shows "\<exists>body. getMockDetailedAnalysis env symb r1 r2 =
           Inr (''Analysis for '' @ displayName_spec symb @ '':'' @ newline @ body)"
  using getMockDetailedAnalysis_number [OF price_number [OF assms], of env r1 r2]
  by (simp add: displayName_text [OF assms] del: numToFixed2.simps)

lemma analysis_not_fallback:
  "getMockDetailedAnalysis env symb r1 r2 \<noteq> Inr fallbackMessage"
proof (cases "symb \<in> set objectPrototypeKeys")
  case True
  then show ?thesis by (simp add: analysis_inherited)
next
  case False
  from analysis_starts [OF this, of env r1 r2] show ?thesis
    by (auto simp add: fallbackMessage_def)
qed

section \<open>The responder\<close>

lemma names_not_inherited:
  "(symb, name) \<in> set SYMBOL_NAMES \<Longrightarrow> symb \<notin> set objectPrototypeKeys"
  by (auto simp add: SYMBOL_NAMES_def objectPrototypeKeys_def)

lemma find_in_set: "find P xs = Some x \<Longrightarrow> x \<in> set xs"
  by (induction xs) (auto split: if_splits)

text \<open>\<^verbatim>\<open>includes\<close> is the substring relation.\<close>

lemma stringIncludes_sublist: "stringIncludes hay needle = sublist needle hay"
  by (induction hay) (simp_all add: sublist_Cons_right)

lemma scanNames_find:
  "scanNames env low r1 r2 entries =
     (case find (\<lambda>(symb, name). stringIncludes low (toLowerCase name)) entries of
        None \<Rightarrow> Inr []
      | Some (symb, name) \<Rightarrow> getMockDetailedAnalysis env symb r1 r2)"
  by (induction entries) auto

lemma respond_find:
  "respond env inp r1 r2 =
     (case find (\<lambda>(symb, name). sublist (toLowerCase name) (toLowerCase inp)) SYMBOL_NAMES of
        None \<Rightarrow> Inr fallbackMessage
      | Some (symb, name) \<Rightarrow> getMockDetailedAnalysis env symb r1 r2)"
proof (cases "find (\<lambda>(symb, name). sublist (toLowerCase name) (toLowerCase inp)) SYMBOL_NAMES")
  case None
  then show ?thesis
    by (simp add: respond_def scanNames_find stringIncludes_sublist bindE_def)
next
  case (Some e)
  obtain symb name where e: "e = (symb, name)" by (cases e)
  from Some have "e \<in> set SYMBOL_NAMES" by (rule find_in_set)
  with e have "symb \<notin> set objectPrototypeKeys" by (simp add: names_not_inherited)
  from analysis_starts [OF this, of env r1 r2]
  obtain body where "getMockDetailedAnalysis env symb r1 r2 =
      Inr (''Analysis for '' @ displayName_spec symb @ '':'' @ newline @ body)" ..
  with Some e show ?thesis
    by (simp add: respond_def scanNames_find stringIncludes_sublist bindE_def)
qed

lemma respond_matched:
  "respond env inp r1 r2 =
     (case matchedSymbol inp of
        None \<Rightarrow> Inr fallbackMessage
      | Some symb \<Rightarrow> getMockDetailedAnalysis env symb r1 r2)"
  by (simp add: respond_find matchedSymbol_def split: option.split prod.split)

lemma matched_in_table:
  assumes "matchedSymbol inp = Some symb"
  shows "symb \<in> set WATCHED_SYMBOLS"
proof -
  from assms obtain e where "e \<in> set SYMBOL_NAMES" and "fst e = symb"
    by (auto simp add: matchedSymbol_def dest: find_in_set)
  then show ?thesis by (auto simp add: SYMBOL_NAMES_def WATCHED_SYMBOLS_def)
qed

lemma respond_returns: "\<exists>report. respond env inp r1 r2 = Inr report \<and> report \<noteq> []"
proof (cases "matchedSymbol inp")
  case None
  then show ?thesis by (simp add: respond_matched fallbackMessage_def)
next
  case (Some symb)
  from matched_in_table [OF this] have "symb \<notin> set objectPrototypeKeys"
    by (rule watched_not_inherited)
  from analysis_starts [OF this, of env r1 r2] Some show ?thesis
    by (auto simp add: respond_matched)
qed

text \<open>
  Claim C3. The response to any input is the analysis of the first entry of the
  table whose lowercased display name is a substring of the lowercased input, and
  the fallback message when there is none; the table's order is \<^verbatim>\<open>^GSPC\<close>,
  \<^verbatim>\<open>^DJI\<close>, \<^verbatim>\<open>^IXIC\<close>, \<^verbatim>\<open>GC=F\<close>, \<^verbatim>\<open>BTC-USD\<close>; and the responder always returns.
\<close>

theorem respond_first_match:
  "respond env inp r1 r2 =
     (case find (\<lambda>(symb, name). sublist (toLowerCase name) (toLowerCase inp)) SYMBOL_NAMES of
        None \<Rightarrow> Inr fallbackMessage
      | Some (symb, name) \<Rightarrow> getMockDetailedAnalysis env symb r1 r2) \<and>
   map fst SYMBOL_NAMES = [''^GSPC'', ''^DJI'', ''^IXIC'', ''GC=F'', ''BTC-USD''] \<and>
   (\<exists>report. respond env inp r1 r2 = Inr report)"
proof -
  have "map fst SYMBOL_NAMES = [''^GSPC'', ''^DJI'', ''^IXIC'', ''GC=F'', ''BTC-USD'']"
    by (simp add: SYMBOL_NAMES_def)
  moreover from respond_returns [of env inp r1 r2]
  have "\<exists>report. respond env inp r1 r2 = Inr report" by blast
  ultimately show ?thesis using respond_find [of env inp r1 r2] by simp
qed

lemma respond_fallback_iff:
  "(respond env inp r1 r2 = Inr fallbackMessage) = (matchedSymbol inp = None)"
  by (simp add: respond_matched analysis_not_fallback split: option.split)

lemma matched_None_iff:
  "(matchedSymbol inp = None) =
     (\<forall>(symb, name) \<in> set SYMBOL_NAMES. \<not> sublist (toLowerCase name) (toLowerCase inp))"
  by (auto simp add: matchedSymbol_def find_None_iff)

lemma banana_no_match: "matchedSymbol ''banana'' = None"
  by code_simp

text \<open>Bitcoin is named first, but Gold is earlier in the table.\<close>

lemma earlier_entry_wins:
  "matchedSymbol ''Bitcoin or GOLD?'' = Some ''GC=F'' \<and>
   matchedSymbol ''tell me about the Dow Jones index'' = Some ''^DJI''"
  by code_simp

text \<open>
  Claim C4. The response is the fallback message exactly when no lowercased
  display name of the table is a substring of the lowercased input, and it is the
  fallback message for the input \<^verbatim>\<open>banana\<close>.
\<close>

theorem fallback_iff_no_match:
  "(respond env inp r1 r2 = Inr fallbackMessage) =
     (\<forall>(symb, name) \<in> set SYMBOL_NAMES. \<not> sublist (toLowerCase name) (toLowerCase inp)) \<and>
   respond env ''banana'' r1 r2 = Inr fallbackMessage"
  using respond_fallback_iff [of env inp r1 r2] respond_fallback_iff [of env "''banana''" r1 r2]
    matched_None_iff [of inp] banana_no_match
  by simp

theorem fallback_iff_no_match_witness:
  "respond testRuntime ''what about silver?'' (1 / 4) (1 / 3) = Inr fallbackMessage"
proof -
  have "\<forall>(symb, name) \<in> set SYMBOL_NAMES.
          \<not> sublist (toLowerCase name) (toLowerCase ''what about silver?'')"
    by code_simp
  with fallback_iff_no_match [of testRuntime "''what about silver?''" "1 / 4" "1 / 3"]
  show ?thesis by blast
qed

text \<open>
  Claim C8. Two inputs that are equal after lowercasing select the same symbol of
  the table (or both none), and their responses are the same function of the
  random draws: the reports differ in nothing but the figures that the draws
  decide.
\<close>

theorem respond_case_insensitive:
  assumes "toLowerCase a = toLowerCase b"
  shows "matchedSymbol a = matchedSymbol b \<and> respond env a = respond env b"
proof -
  have m: "matchedSymbol a = matchedSymbol b"
    using assms by (simp add: matchedSymbol_def)
  have "respond env a r1 r2 = respond env b r1 r2" for r1 r2
    using assms by (simp add: respond_def)
  then have "respond env a = respond env b" by (intro ext)
  with m show ?thesis by simp
qed

theorem respond_case_insensitive_witness:
  "toLowerCase ''GOLD'' = toLowerCase ''gold'' \<and>
   matchedSymbol ''GOLD'' = Some ''GC=F'' \<and> matchedSymbol ''gold'' = Some ''GC=F'' \<and>
   respond testRuntime ''GOLD'' = respond testRuntime ''gold''"
proof -
  have h: "toLowerCase ''GOLD'' = toLowerCase ''gold''"
    by code_simp
  have g: "matchedSymbol ''gold'' = Some ''GC=F''"
    by code_simp
  from respond_case_insensitive [OF h, of testRuntime] h g show ?thesis by simp
qed

section \<open>Refresh and submission\<close>

lemma symbol_getMockMarketData: "symbol (getMockMarketData env symb r) = symb"
  by (simp add: getMockMarketData_def Let_def)

text \<open>
  Claim C6. A refresh leaves exactly five quotes, the \<open>i\<close>-th one generated for the
  \<open>i\<close>-th symbol of the watch-list with the \<open>i\<close>-th draw; the new snapshot does not
  depend on the one it replaces, and the messages and the input field stay.
\<close>

theorem refresh_replaces_snapshot:
  "length (marketData (updateMarketData env rnd st)) = 5 \<and>
   map symbol (marketData (updateMarketData env rnd st)) = WATCHED_SYMBOLS \<and>
   marketData (updateMarketData env rnd st) =
     map (\<lambda>i. getMockMarketData env (WATCHED_SYMBOLS ! i) (rnd i)) [0, 1, 2, 3, 4] \<and>
   marketData (updateMarketData env rnd st) = marketData (updateMarketData env rnd st') \<and>
   messages (updateMarketData env rnd st) = messages st \<and>
   input (updateMarketData env rnd st) = input st"
  by (simp add: updateMarketData_def WATCHED_SYMBOLS_def symbol_getMockMarketData Let_def
      eval_nat_numeral)

lemma handleSubmit_prefix: "prefix (messages st) (messages (handleSubmit env r1 r2 st))"
  by (simp add: handleSubmit_def Let_def prefix_def split: sum.split)

lemma step_prefix: "prefix (messages st) (messages (step env st ev))"
  by (cases ev) (simp_all add: handleSubmit_prefix updateMarketData_def Let_def)

lemma run_prefix: "prefix (messages st) (messages (run env st evs))"
  unfolding run_def
proof (induction evs arbitrary: st)
  case Nil
  show ?case by simp
next
  case (Cons ev evs)
  have "prefix (messages st) (messages (step env st ev))" by (rule step_prefix)
  also have "prefix (messages (step env st ev)) (messages (foldl (step env) (step env st ev) evs))"
    by (rule Cons.IH)
  finally show ?case by simp
qed

text \<open>
  Claim C9. The messages before a submission are a prefix of the messages after
  it, and the messages at any point of a session (typing, submissions and
  refreshes in any order) are a prefix of the messages at every later point.
\<close>

theorem messages_append_only:
  "prefix (messages st) (messages (handleSubmit env r1 r2 st)) \<and>
   prefix (messages st) (messages (run env st evs)) \<and>
   prefix (messages (run env st evs)) (messages (run env st (evs @ evs')))"
proof -
  have "run env st (evs @ evs') = run env (run env st evs) evs'"
    by (simp add: run_def)
  then have "prefix (messages (run env st evs)) (messages (run env st (evs @ evs')))"
    by (simp add: run_prefix)
  then show ?thesis by (simp add: handleSubmit_prefix run_prefix)
qed

lemma trim_empty_iff: "(trim s = []) = (\<forall>c \<in> set s. isWhiteSpace c)"
proof
  assume "trim s = []"
  then have all: "\<forall>c \<in> set (dropWhile isWhiteSpace s). isWhiteSpace c"
    by (simp add: trim_def)
  have "dropWhile isWhiteSpace s = []"
  proof (rule ccontr)
    assume ne: "dropWhile isWhiteSpace s \<noteq> []"
    then have "\<not> isWhiteSpace (hd (dropWhile isWhiteSpace s))" by (rule hd_dropWhile)
    moreover from ne have "hd (dropWhile isWhiteSpace s) \<in> set (dropWhile isWhiteSpace s)"
      by simp
    ultimately show False using all by blast
  qed
  then show "\<forall>c \<in> set s. isWhiteSpace c" by simp
next
  assume "\<forall>c \<in> set s. isWhiteSpace c"
  then have d: "dropWhile isWhiteSpace s = []" by simp
  show "trim s = []" unfolding trim_def d by simp
qed

text \<open>
  Claim C10. When the input field is empty or holds white space only, a submission
  changes nothing: the state after it, with its messages, its snapshot and its
  input field, is the state before it.
\<close>

theorem blank_submit_is_noop:
  assumes "\<forall>c \<in> set (input st). isWhiteSpace c"
  shows "handleSubmit env r1 r2 st = st"
  using assms by (simp add: handleSubmit_def trim_empty_iff)

theorem blank_submit_is_noop_witness:
  "isWhiteSpace (CHR 0x20) \<and> isWhiteSpace (CHR 0x09) \<and>
   handleSubmit testRuntime (1 / 4) (1 / 3) (initialState\<lparr> input := [CHR 0x20, CHR 0x09] \<rparr>)
     = initialState\<lparr> input := [CHR 0x20, CHR 0x09] \<rparr> \<and>
   handleSubmit testRuntime (1 / 4) (1 / 3) initialState = initialState"
proof -
  have w: "isWhiteSpace (CHR 0x20)" "isWhiteSpace (CHR 0x09)"
    by (simp_all add: isWhiteSpace_def)
  then have h: "\<forall>c \<in> set (input (initialState\<lparr> input := [CHR 0x20, CHR 0x09] \<rparr>)). isWhiteSpace c"
    by simp
  have h0: "\<forall>c \<in> set (input initialState). isWhiteSpace c"
    by (simp add: initialState_def)
  from blank_submit_is_noop [OF h, of testRuntime "1 / 4" "1 / 3"]
    blank_submit_is_noop [OF h0, of testRuntime "1 / 4" "1 / 3"] w
  show ?thesis by simp
qed

lemma submit_appends:
  assumes "trim (input st) \<noteq> []"
  shows "\<exists>report. respond env (input st) r1 r2 = Inr report \<and>
           handleSubmit env r1 r2 st =
             st\<lparr> messages := messages st @ [\<lparr> content = input st, role = User \<rparr>,
                                              \<lparr> content = report, role = Assistant \<rparr>],
                 input := [] \<rparr>"
proof -
  from respond_returns [of env "input st" r1 r2]
  obtain report where "respond env (input st) r1 r2 = Inr report" by blast
  with assms show ?thesis by (simp add: handleSubmit_def Let_def)
qed

section \<open>The shape of a report\<close>



lemma digitsOf_not_Nil: "digitsOf n \<noteq> []"
  by (subst digitsOf.simps) simp




section \<open>Symbols that name an inherited property\<close>

lemma table_keys:
  "map fst basePriceTable = WATCHED_SYMBOLS \<and> map fst SYMBOL_NAMES = WATCHED_SYMBOLS"
  by (simp add: basePriceTable_def SYMBOL_NAMES_def WATCHED_SYMBOLS_def)



















end
